theory Spec2Isabelle
  imports Main "HOL-Library.Sublist"
begin

section \<open>Basic regular expressions of \<open>expr match\<close> and \<open>grep\<close>\<close>

text \<open>
  Both workflow scripts call \<^verbatim>\<open>expr match STRING REGEX\<close> and the gate calls
  \<^verbatim>\<open>grep REGEX\<close>. The regular expressions that occur are sequences of single
  characters and bracket expressions, the last piece carrying \<^verbatim>\<open>*\<close> or \<^verbatim>\<open>\+\<close>:
  \<^verbatim>\<open>release_v[0-9.]\+\<close>, \<^verbatim>\<open>latest-dep-update-[a-zA-Z0-9]*\<close>,
  \<^verbatim>\<open>min-dep-update-[a-zA-Z0-9]*\<close> and the marker, which has no operator at all.
  A pattern is therefore a list of pieces.
\<close>

datatype bracket_item = Single char | Range char char

datatype atom = Chr char | Bracket "bracket_item list"



fun in_bracket :: "bracket_item list \<Rightarrow> char \<Rightarrow> bool" where
  "in_bracket [] c = False"
| "in_bracket (Single d # its) c = (c = d \<or> in_bracket its c)"
| "in_bracket (Range lo hi # its) c =
     (((of_char lo :: nat) \<le> of_char c \<and> (of_char c :: nat) \<le> of_char hi) \<or> in_bracket its c)"

fun atom_ok :: "atom \<Rightarrow> char \<Rightarrow> bool" where
  "atom_ok (Chr d) c = (c = d)"
| "atom_ok (Bracket its) c = in_bracket its c"









section \<open>The release-notes workflow\<close>






definition alnum :: atom where
  "alnum = Bracket [Range CHR ''a'' CHR ''z'', Range CHR ''A'' CHR ''Z'', Range CHR ''0'' CHR ''9'']"




subsection \<open>The branch name inside the script\<close>
























subsection \<open>The two steps\<close>















subsection \<open>The branch-name classes and the marker, as the specification words them\<close>


definition alnum_chars :: string where
  "alnum_chars = ''abcdefghijklmnopqrstuvwxyzABCDEFGHIJKLMNOPQRSTUVWXYZ0123456789''"





section \<open>Workflow configuration\<close>

text \<open>
  An event that can start a workflow: a pull-request activity of some type, or a push to
  a branch. A workflow's \<^verbatim>\<open>on:\<close> block lists the activity types and the branches it
  listens to; a key that is absent listens to nothing. The one branch filter that occurs,
  \<^verbatim>\<open>main\<close>, has no glob character and selects the branch of that name.
\<close>

datatype event = Pull_request string | Push string

record triggers =
  on_pull_request :: "string list option"
  on_push :: "string list option"

definition triggered_by :: "triggers \<Rightarrow> event \<Rightarrow> bool" where
  "triggered_by t ev =
     (case ev of
        Pull_request ty \<Rightarrow> (case on_pull_request t of None \<Rightarrow> False | Some tys \<Rightarrow> ty \<in> set tys)
      | Push br \<Rightarrow> (case on_push t of None \<Rightarrow> False | Some brs \<Rightarrow> br \<in> set brs))"

definition unit_tests_on :: triggers where
  "unit_tests_on = \<lparr>on_pull_request = Some [''opened'', ''synchronize''], on_push = Some [''main'']\<rparr>"

definition release_notes_updated_on :: triggers where
  "release_notes_updated_on = \<lparr>on_pull_request = Some [''opened'', ''synchronize''], on_push = None\<rparr>"

definition workflow_triggers :: "triggers list" where
  "workflow_triggers = [unit_tests_on, release_notes_updated_on]"

text \<open>
  Steps carry texts with expressions \<^verbatim>\<open>${{ matrix.KEY }}\<close> and \<^verbatim>\<open>${{ github.KEY }}\<close>,
  which the runner replaces by their values before the step runs.
\<close>

datatype frag = Text string | Matrix string | Github string

type_synonym template = "frag list"

datatype step =
    Uses template string "(string \<times> template) list"
  | Run template "template list"

record job =
  job_name :: template
  runs_on :: string
  fail_fast :: bool
  matrix :: "(string \<times> string list) list"
  steps :: "step list"

type_synonym matrix_instance = "(string \<times> string) list"

fun expand :: "(string \<times> string list) list \<Rightarrow> matrix_instance list" where
  "expand [] = [[]]"
| "expand ((k, vs) # axes) = concat (map (\<lambda>v. map (\<lambda>rest. (k, v) # rest) (expand axes)) vs)"

fun render_frag :: "matrix_instance \<Rightarrow> (string \<Rightarrow> string) \<Rightarrow> frag \<Rightarrow> string" where
  "render_frag m gh (Text s) = s"
| "render_frag m gh (Matrix k) = (case map_of m k of None \<Rightarrow> [] | Some v \<Rightarrow> v)"
| "render_frag m gh (Github k) = gh k"

definition render :: "matrix_instance \<Rightarrow> (string \<Rightarrow> string) \<Rightarrow> template \<Rightarrow> string" where
  "render m gh t = concat (map (render_frag m gh) t)"

fun script_of :: "step \<Rightarrow> template list" where
  "script_of (Uses nm action args) = []"
| "script_of (Run nm script) = script"

definition unit_tests :: job where
  "unit_tests =
     \<lparr>job_name = [Matrix ''python_version'', Text '' min dep '', Matrix ''command''],
      runs_on = ''ubuntu-latest'',
      fail_fast = False,
      matrix =
        [(''python_version'', [''3.7'']),
         (''command'',
          [''git-test-automl'', ''git-test-modelunderstanding'', ''git-test-other'', ''git-test-dask''])],
      steps =
        [Uses [Text ''Set up Python '', Matrix ''python_version''] ''actions/setup-python@v2''
           [(''python-version'', [Matrix ''python_version''])],
         Uses [Text ''Checkout repository''] ''actions/checkout@v2''
           [(''ref'', [Github ''event.pull_request.head.ref'']),
            (''repository'', [Github ''event.pull_request.head.repo.full_name'']),
            (''fetch-depth'', [Text ''2''])],
         Run [Text ''Update apt and install Graphviz'']
           [[Text ''sudo apt update && sudo apt install -y graphviz'']],
         Run [Text ''Create virtual environment, upgrade pip'']
           [[Text ''pip install virtualenv''],
            [Text ''virtualenv test_python -q''],
            [Text ''source test_python/bin/activate''],
            [Text ''python -m pip install --upgrade pip -q'']],
         Run [Text ''install evalml with test dependencies, core dependencies, & optional requirements'']
           [[Text ''source test_python/bin/activate''],
            [Text ''pip install -e . --no-dependencies''],
            [Text ''pip install -r evalml/tests/dependency_update_check/minimum_test_requirements.txt''],
            [Text ''pip install -r evalml/tests/dependency_update_check/minimum_core_requirements.txt''],
            [Text ''pip install -r evalml/tests/dependency_update_check/minimum_requirements.txt'']],
         Run [Text ''run tests'']
           [[Text ''source test_python/bin/activate''],
            [Text ''make '', Matrix ''command'']]]\<rparr>"

text \<open>The last line of the last step of a matrix instance, with its expressions replaced.\<close>

definition final_command :: "job \<Rightarrow> (string \<Rightarrow> string) \<Rightarrow> matrix_instance \<Rightarrow> string" where
  "final_command j gh m =
     (case steps j of [] \<Rightarrow> []
      | _ \<Rightarrow> (case script_of (last (steps j)) of [] \<Rightarrow> [] | sc \<Rightarrow> render m gh (last sc)))"

section \<open>The demonstration notebook\<close>

text \<open>
  The code cells of \<^verbatim>\<open>docs/source/demos/text_input.ipynb\<close>, each as the operations it
  invokes, in the order of evaluation, with the library that provides the operation.
\<close>

datatype library = EvalML | Pandas | Urllib | Woodwork | Builtin

type_synonym invocation = "library \<times> string"

definition text_input_cells :: "invocation list list" where
  "text_input_cells =
     [[],
      [(Urllib, ''urllib.request.urlopen''), (Pandas, ''pandas.read_csv''),
       (Pandas, ''DataFrame.drop''), (Pandas, ''DataFrame.head''), (Builtin, ''display'')],
      [(Pandas, ''Series.value_counts'')],
      [(Woodwork, ''ww.init'')],
      [(EvalML, ''evalml.preprocessing.split_data'')],
      [(Woodwork, ''ww'')],
      [(EvalML, ''AutoMLSearch''), (EvalML, ''AutoMLSearch.search'')],
      [(EvalML, ''AutoMLSearch.rankings'')],
      [(EvalML, ''AutoMLSearch.best_pipeline'')],
      [(EvalML, ''AutoMLSearch.rankings''), (Pandas, ''DataFrame.iloc''),
       (EvalML, ''AutoMLSearch.describe_pipeline'')],
      [(EvalML, ''pipeline.graph'')],
      [(EvalML, ''evalml.objectives.get_core_objectives''), (EvalML, ''pipeline.score''),
       (Builtin, ''print'')],
      [(EvalML, ''evalml.utils.infer_feature_types''), (EvalML, ''evalml.preprocessing.split_data'')],
      [(EvalML, ''AutoMLSearch''), (EvalML, ''AutoMLSearch.search'')],
      [(EvalML, ''AutoMLSearch.rankings'')],
      [(EvalML, ''AutoMLSearch.best_pipeline'')],
      [(EvalML, ''pipeline.graph'')],
      [(EvalML, ''AutoMLSearch.rankings''), (Pandas, ''DataFrame.iloc''),
       (EvalML, ''AutoMLSearch.describe_pipeline'')],
      [(EvalML, ''evalml.objectives.get_core_objectives''), (EvalML, ''pipeline.score''),
       (Builtin, ''print'')]]"

definition operations_of :: "library \<Rightarrow> invocation list list \<Rightarrow> string list" where
  "operations_of l cells = remdups (map snd (filter (\<lambda>i. fst i = l) (concat cells)))"

text \<open>
  The library surface as the specification lists it: the data-split utility, the search
  constructor with \<open>search\<close>, \<open>rankings\<close>, \<open>best_pipeline\<close>, \<open>describe_pipeline\<close> and
  \<open>score\<close>, and the feature-type inference utility.
\<close>

definition named_surface :: "string list" where
  "named_surface =
     [''evalml.preprocessing.split_data'', ''AutoMLSearch'', ''AutoMLSearch.search'',
      ''AutoMLSearch.rankings'', ''AutoMLSearch.best_pipeline'', ''AutoMLSearch.describe_pipeline'',
      ''pipeline.score'', ''evalml.utils.infer_feature_types'']"

section \<open>The matcher computes the longest matching prefix\<close>





section \<open>The patterns of the workflow\<close>








lemma alnum_codes: "map char_of ([97..<123] @ [65..<91] @ [48..<58 :: nat]) = alnum_chars"
  unfolding alnum_chars_def by code_simp

lemma alnum_code_iff:
  "atom_ok alnum c \<longleftrightarrow> (of_char c :: nat) \<in> set ([97..<123] @ [65..<91] @ [48..<58])"
proof -
  have "atom_ok alnum c \<longleftrightarrow>
          (97 \<le> (of_char c :: nat) \<and> (of_char c :: nat) \<le> 122)
        \<or> (65 \<le> (of_char c :: nat) \<and> (of_char c :: nat) \<le> 90)
        \<or> (48 \<le> (of_char c :: nat) \<and> (of_char c :: nat) \<le> 57)"
    by (simp add: alnum_def)
  also have "\<dots> \<longleftrightarrow> (of_char c :: nat) \<in> {97..<123} \<union> {65..<91} \<union> {48..<58}"
    unfolding Un_iff atLeastLessThan_iff by arith
  finally show ?thesis by (simp only: set_append set_upt Un_assoc)
qed

lemma alnum_iff: "atom_ok alnum c \<longleftrightarrow> c \<in> set alnum_chars"
proof
  assume "atom_ok alnum c"
  then have "(of_char c :: nat) \<in> set ([97..<123] @ [65..<91] @ [48..<58])"
    by (simp only: alnum_code_iff)
  then have "char_of (of_char c :: nat) \<in> char_of ` set ([97..<123] @ [65..<91] @ [48..<58 :: nat])"
    by (rule imageI)
  then have "c \<in> set (map char_of ([97..<123] @ [65..<91] @ [48..<58 :: nat]))"
    by (simp only: char_of_char set_map)
  then show "c \<in> set alnum_chars" by (simp only: alnum_codes)
next
  assume "c \<in> set alnum_chars"
  then have "c \<in> char_of ` set ([97..<123] @ [65..<91] @ [48..<58 :: nat])"
    by (simp only: alnum_codes [symmetric] set_map)
  then obtain n :: nat where n: "c = char_of n" "n \<in> set ([97..<123] @ [65..<91] @ [48..<58])"
    by (rule imageE)
  from n(2) have "n \<in> {97..<123} \<union> {65..<91} \<union> {48..<58}"
    by (simp only: set_append set_upt Un_assoc)
  then have "n < 256" unfolding Un_iff atLeastLessThan_iff by arith
  then have "(of_char c :: nat) = n" using n(1) by simp
  with n(2) show "atom_ok alnum c" by (simp only: alnum_code_iff)
qed

section \<open>Searching for a literal\<close>








section \<open>Decimal numbers and the marker\<close>














section \<open>The release-notes gate\<close>























section \<open>The unit-test workflow\<close>

text \<open>
  Claim C4. The matrix of the unit-test workflow is the product of the one Python version
  3.7 with the four commands \<^verbatim>\<open>git-test-automl\<close>, \<^verbatim>\<open>git-test-modelunderstanding\<close>,
  \<^verbatim>\<open>git-test-other\<close> and \<^verbatim>\<open>git-test-dask\<close>; it has exactly four instances, and the
  last line of the last step of each instance is \<^verbatim>\<open>make\<close> with the command of that
  instance as its target.
\<close>

theorem unit_test_matrix_jobs:
  "set (expand (matrix unit_tests)) =
     (\<lambda>(v, c). [(''python_version'', v), (''command'', c)]) `
       ({''3.7''} \<times> {''git-test-automl'', ''git-test-modelunderstanding'', ''git-test-other'', ''git-test-dask''})
   \<and> length (expand (matrix unit_tests)) = 4
   \<and> distinct (expand (matrix unit_tests))
   \<and> map (final_command unit_tests gh) (expand (matrix unit_tests)) =
       map (\<lambda>c. ''make '' @ c)
         [''git-test-automl'', ''git-test-modelunderstanding'', ''git-test-other'', ''git-test-dask'']"
  by (simp add: unit_tests_def final_command_def render_def insert_commute)

section \<open>Triggers\<close>

text \<open>
  Claim C5, as stated, says that both workflows listen to pull requests (opened,
  synchronize) and to pushes to \<^verbatim>\<open>main\<close>. The release-notes workflow declares no
  \<^verbatim>\<open>push\<close> key: a push to \<^verbatim>\<open>main\<close> does not start it.
\<close>

theorem release_notes_workflow_not_on_push:
  "\<not> triggered_by release_notes_updated_on (Push ''main'')"
  by (simp add: triggered_by_def release_notes_updated_on_def)

text \<open>
  Claim C5, amended. Both workflows are started by pull-request events of the types
  opened and synchronize, and by no other pull-request type; the unit-test workflow is
  started by a push to \<^verbatim>\<open>main\<close> as well, the release-notes workflow by no push.
\<close>

theorem workflow_triggers_as_declared:
  "(triggered_by unit_tests_on ev \<longleftrightarrow>
      ev \<in> {Pull_request ''opened'', Pull_request ''synchronize'', Push ''main''})
   \<and> (triggered_by release_notes_updated_on ev \<longleftrightarrow>
      ev \<in> {Pull_request ''opened'', Pull_request ''synchronize''})"
  by (cases ev) (auto simp: triggered_by_def unit_tests_on_def release_notes_updated_on_def)

section \<open>The library surface of the notebook\<close>

text \<open>
  Claim C6, as stated, says that the notebook invokes no operation of the library besides
  the ones the specification names. The notebook also draws the graph of the best
  pipeline and asks the library for the core objectives of the problem type.
\<close>

theorem notebook_calls_outside_named_surface:
  "''pipeline.graph'' \<in> set (operations_of EvalML text_input_cells)
   \<and> ''pipeline.graph'' \<notin> set named_surface
   \<and> ''evalml.objectives.get_core_objectives'' \<in> set (operations_of EvalML text_input_cells)
   \<and> ''evalml.objectives.get_core_objectives'' \<notin> set named_surface"
  by code_simp

text \<open>
  Claim C6, amended. The operations of the library that the notebook invokes are exactly
  the ones the specification names together with the graph of a pipeline and
  \<^verbatim>\<open>evalml.objectives.get_core_objectives\<close>.
\<close>

theorem notebook_evalml_operations:
  "set (operations_of EvalML text_input_cells) =
     set named_surface \<union> {''pipeline.graph'', ''evalml.objectives.get_core_objectives''}"
  by code_simp

section \<open>Error paths, anchoring and determinism of the gate\<close>










end
